theory Spec2Isabelle
  imports Main "HOL-Library.Multiset"
begin

section \<open>The audit service of \<^verbatim>\<open>main.py\<close>\<close>

text \<open>
  \<^verbatim>\<open>main.py\<close> is a FastAPI application with three handlers over one PostgreSQL table,
  \<^verbatim>\<open>audits\<close>, reached through an asyncpg connection pool. The handlers are embedded as
  functions from the application state, the table and the outcome of the calls that
  leave the process to a result of type \<open>exn + pyval\<close> (\<open>Inl\<close> is a raised exception).
  What the source leaves to its libraries is written out where a handler depends on it:
  the attribute lookup on \<^verbatim>\<open>app.state\<close>, the rows a statement returns, the route table.
\<close>

subsection \<open>Python values and exceptions\<close>

text \<open>
  The values the handlers receive and return: what \<^verbatim>\<open>json.loads\<close> builds from a request
  body (numbers restricted to integers), and the \<^verbatim>\<open>datetime\<close> of a \<^verbatim>\<open>created_at\<close> column.
  A \<^verbatim>\<open>dict\<close> keeps its insertion order, so it is an association list.
\<close>

datatype pyval =
    PNone
  | PBool bool
  | PInt int
  | PStr string
  | PDatetime int
  | PList "pyval list"
  | PDict "(string \<times> pyval) list"

text \<open>
  Exceptions. \<^verbatim>\<open>HTTPException\<close> (status, detail) and the framework's
  \<^verbatim>\<open>RequestValidationError\<close> are subclasses of \<^verbatim>\<open>Exception\<close>, as are
  \<^verbatim>\<open>AttributeError\<close> and the errors of asyncpg and \<^verbatim>\<open>json\<close> (\<open>Error\<close>, with the
  exception's text): \<^verbatim>\<open>except Exception\<close> catches every one of them.
\<close>

datatype exn =
    HTTPException nat string
  | RequestValidationError
  | AttributeError string
  | Error string

fun decimal :: "nat \<Rightarrow> string" where
  "decimal n =
     (if n < 10 then [''0123456789'' ! n]
      else decimal (n div 10) @ [''0123456789'' ! (n mod 10)])"

definition str_int :: "int \<Rightarrow> string" where
  "str_int i = (if i < 0 then CHR ''-'' # decimal (nat (- i)) else decimal (nat i))"

text \<open>\<^verbatim>\<open>str(e)\<close>, as the f-string of \<^verbatim>\<open>create_audit\<close> formats the caught exception.\<close>

fun str_exn :: "exn \<Rightarrow> string" where
  "str_exn (HTTPException s d) = decimal s @ '': '' @ d"
| "str_exn RequestValidationError = ''[]''"
| "str_exn (AttributeError a) = ''State object has no attribute '' @ a"
| "str_exn (Error m) = m"

subsection \<open>\<^verbatim>\<open>json.dumps\<close>\<close>

text \<open>
  \<^verbatim>\<open>json.dumps\<close> with its defaults: separators \<^verbatim>\<open>", "\<close> and \<^verbatim>\<open>": "\<close>, every character
  outside the printable ASCII range escaped, and a \<^verbatim>\<open>TypeError\<close> for a value that has
  no JSON form (here a \<^verbatim>\<open>datetime\<close>).
\<close>

definition hex4 :: "nat \<Rightarrow> string" where
  "hex4 n = map (\<lambda>k. ''0123456789abcdef'' ! ((n div 16 ^ k) mod 16)) [3, 2, 1, 0]"

definition escape_char :: "char \<Rightarrow> string" where
  "escape_char c =
     (if c = CHR 0x22 then [CHR 0x5C, CHR 0x22]
      else if c = CHR 0x5C then [CHR 0x5C, CHR 0x5C]
      else if c = CHR 0x0A then [CHR 0x5C, CHR ''n'']
      else if c = CHR 0x0D then [CHR 0x5C, CHR ''r'']
      else if c = CHR 0x09 then [CHR 0x5C, CHR ''t'']
      else if c = CHR 0x08 then [CHR 0x5C, CHR ''b'']
      else if c = CHR 0x0C then [CHR 0x5C, CHR ''f'']
      else if (of_char c :: nat) < 32 \<or> 126 < (of_char c :: nat)
        then [CHR 0x5C, CHR ''u''] @ hex4 (of_char c)
      else [c])"

definition encode_str :: "string \<Rightarrow> string" where
  "encode_str s = [CHR 0x22] @ concat (map escape_char s) @ [CHR 0x22]"

fun join :: "string \<Rightarrow> string list \<Rightarrow> string" where
  "join sep [] = []"
| "join sep [x] = x"
| "join sep (x # y # ys) = x @ sep @ join sep (y # ys)"

text \<open>The first exception of a list of results, or all the values.\<close>

fun sequence :: "(exn + 'a) list \<Rightarrow> exn + 'a list" where
  "sequence [] = Inr []"
| "sequence (x # xs) =
     (case x of
        Inl e \<Rightarrow> Inl e
      | Inr v \<Rightarrow> (case sequence xs of Inl e \<Rightarrow> Inl e | Inr vs \<Rightarrow> Inr (v # vs)))"

fun json_dumps :: "pyval \<Rightarrow> exn + string" where
  "json_dumps PNone = Inr ''null''"
| "json_dumps (PBool b) = Inr (if b then ''true'' else ''false'')"
| "json_dumps (PInt i) = Inr (str_int i)"
| "json_dumps (PStr s) = Inr (encode_str s)"
| "json_dumps (PDatetime t) = Inl (Error ''Object of type datetime is not JSON serializable'')"
| "json_dumps (PList xs) =
     (case sequence (map json_dumps xs) of
        Inl e \<Rightarrow> Inl e
      | Inr ss \<Rightarrow> Inr (''['' @ join '', '' ss @ '']''))"
| "json_dumps (PDict kvs) =
     (case sequence (map (\<lambda>kv. case json_dumps (snd kv) of
                                   Inl e \<Rightarrow> Inl e
                                 | Inr s \<Rightarrow> Inr (encode_str (fst kv) @ '': '' @ s)) kvs) of
        Inl e \<Rightarrow> Inl e
      | Inr ss \<Rightarrow> Inr (''{'' @ join '', '' ss @ ''}''))"

subsection \<open>The request model \<^verbatim>\<open>AuditCreate\<close>\<close>

text \<open>
  \<^verbatim>\<open>
  class AuditCreate(BaseModel):
      audit_name: str = Field(..., alias='auditName')
      report_data: list[dict[str, Any]] = Field(..., alias='reportData')
  \<close>
  Both fields are required and are read under their aliases. Validation of a parsed
  JSON body follows the declared types: a \<^verbatim>\<open>str\<close> field takes a JSON string, a
  \<^verbatim>\<open>list\<close> field a JSON array, a \<^verbatim>\<open>dict\<close> a JSON object; other keys are ignored.
\<close>

record AuditCreate =
  audit_name :: string
  report_data :: "(string \<times> pyval) list list"

fun dict_items :: "pyval \<Rightarrow> (string \<times> pyval) list option" where
  "dict_items (PDict kvs) = Some kvs"
| "dict_items _ = None"

fun list_of_dicts :: "pyval \<Rightarrow> (string \<times> pyval) list list option" where
  "list_of_dicts (PList xs) =
     (if \<forall>x \<in> set xs. dict_items x \<noteq> None then Some (map (\<lambda>x. the (dict_items x)) xs)
      else None)"
| "list_of_dicts _ = None"

definition validate_AuditCreate :: "pyval \<Rightarrow> exn + AuditCreate" where
  "validate_AuditCreate b =
     (case b of
        PDict kvs \<Rightarrow>
          (case map_of kvs ''auditName'' of
             Some (PStr name) \<Rightarrow>
               (case map_of kvs ''reportData'' of
                  Some v \<Rightarrow>
                    (case list_of_dicts v of
                       Some report \<Rightarrow> Inr \<lparr>audit_name = name, report_data = report\<rparr>
                     | None \<Rightarrow> Inl RequestValidationError)
                | None \<Rightarrow> Inl RequestValidationError)
           | _ \<Rightarrow> Inl RequestValidationError)
      | _ \<Rightarrow> Inl RequestValidationError)"

subsection \<open>Application state and startup\<close>

text \<open>
  \<^verbatim>\<open>app.state\<close> is an attribute store that starts empty: reading an attribute that was
  never assigned raises \<^verbatim>\<open>AttributeError\<close>. The module-level \<^verbatim>\<open>db_pool\<close> starts as
  \<^verbatim>\<open>None\<close>. \<^verbatim>\<open>lifespan\<close> assigns both only after \<^verbatim>\<open>asyncpg.create_pool\<close> has returned;
  an exception of \<^verbatim>\<open>create_pool\<close> (or of \<^verbatim>\<open>int(os.getenv("DB_PORT", 5433))\<close>) or of
  the \<^verbatim>\<open>CREATE TABLE\<close> statement is printed, and the application starts all the same.
\<close>

datatype attr = PyNone | PoolObj

type_synonym State = "string \<rightharpoonup> attr"

record startup =
  create_pool_fault :: "string option"
  create_table_fault :: "string option"

definition lifespan_startup :: "startup \<Rightarrow> State \<Rightarrow> attr \<times> State" where
  \<comment> \<open>the pair of the global \<^verbatim>\<open>db_pool\<close> and \<^verbatim>\<open>app.state\<close> at the \<^verbatim>\<open>yield\<close>\<close>
  "lifespan_startup su st =
     (case create_pool_fault su of
        Some e \<Rightarrow> (PyNone, st)
      | None \<Rightarrow>
          (let st' = st(''pool'' \<mapsto> PoolObj) in
           case create_table_fault su of
             Some e \<Rightarrow> (PoolObj, st')
           | None \<Rightarrow> (PoolObj, st')))"

definition state_pool :: "State \<Rightarrow> exn + attr" where
  \<comment> \<open>\<^verbatim>\<open>app.state.pool\<close>\<close>
  "state_pool st =
     (case st ''pool'' of None \<Rightarrow> Inl (AttributeError ''pool'') | Some p \<Rightarrow> Inr p)"

fun truthy :: "attr \<Rightarrow> bool" where
  "truthy PyNone = False"
| "truthy PoolObj = True"

subsection \<open>The table \<^verbatim>\<open>audits\<close>\<close>

text \<open>
  \<^verbatim>\<open>
  CREATE TABLE IF NOT EXISTS audits (
      id SERIAL PRIMARY KEY,
      audit_name VARCHAR(255) NOT NULL,
      created_at TIMESTAMP WITH TIME ZONE DEFAULT CURRENT_TIMESTAMP,
      report_data JSONB );
  \<close>
  The table is the list of its rows in insertion order, with the sequence behind
  \<^verbatim>\<open>SERIAL\<close> holding the next identifier. The rows are those the service inserts, so
  \<^verbatim>\<open>created_at\<close> and \<^verbatim>\<open>report_data\<close> are never null. asyncpg takes and returns a
  \<^verbatim>\<open>JSONB\<close> value as \<^verbatim>\<open>str\<close> (the source serialises the report itself for that
  reason), so the column holds JSON text. PostgreSQL renders a stored \<^verbatim>\<open>JSONB\<close> value
  in its own normal form (order of keys, spacing); the table keeps the text it was
  given, and what is proved below for every report uses only that it is a string.

  Each request meets an environment: whether acquiring a connection or running the
  statement raises (with the error's text), the database clock, and whether the
  frontend's \<^verbatim>\<open>index.html\<close> is on disk.
\<close>

record audit_row =
  row_id :: int
  row_audit_name :: string
  row_created_at :: int
  row_report_data :: string

record database =
  audits :: "audit_row list"
  audits_id_seq :: int

record env =
  acquire_fault :: "string option"
  query_fault :: "string option"
  clock :: int
  index_exists :: bool

definition acquire :: "env \<Rightarrow> exn + unit" where
  \<comment> \<open>\<^verbatim>\<open>async with app.state.pool.acquire() as connection\<close>\<close>
  "acquire ev = (case acquire_fault ev of Some m \<Rightarrow> Inl (Error m) | None \<Rightarrow> Inr ())"

text \<open>
  Assignment to a \<^verbatim>\<open>VARCHAR(255)\<close> column: a longer string is an error, unless the
  characters beyond the limit are all spaces, in which case PostgreSQL stores the
  first 255 characters (the rule of the SQL standard). A name the column rejects
  leaves the sequence where it was; a duplicate key is found after the identifier was
  drawn. The insert checks the length of the name and the primary key; whatever else
  makes the database refuse a statement (a NUL character in a text value, a JSON text
  that \<^verbatim>\<open>JSONB\<close> does not take) is an error of the environment, \<open>query_fault\<close>.
\<close>

definition varchar255 :: "string \<Rightarrow> exn + string" where
  "varchar255 s =
     (if length s \<le> 255 then Inr s
      else if \<forall>c \<in> set (drop 255 s). c = CHR '' '' then Inr (take 255 s)
      else Inl (Error ''value too long for type character varying(255)''))"

definition summary_record :: "audit_row \<Rightarrow> (string \<times> pyval) list" where
  "summary_record r =
     [(''id'', PInt (row_id r)), (''audit_name'', PStr (row_audit_name r)),
      (''created_at'', PDatetime (row_created_at r))]"

definition full_record :: "audit_row \<Rightarrow> (string \<times> pyval) list" where
  "full_record r =
     [(''id'', PInt (row_id r)), (''audit_name'', PStr (row_audit_name r)),
      (''created_at'', PDatetime (row_created_at r)),
      (''report_data'', PStr (row_report_data r))]"

definition fetch_summaries :: "database \<Rightarrow> env \<Rightarrow> exn + (string \<times> pyval) list list" where
  \<comment> \<open>\<^verbatim>\<open>connection.fetch('SELECT id, audit_name, created_at FROM audits ORDER BY created_at DESC')\<close>\<close>
  "fetch_summaries db ev =
     (case query_fault ev of
        Some m \<Rightarrow> Inl (Error m)
      | None \<Rightarrow> Inr (map summary_record (sort_key (\<lambda>r. - row_created_at r) (audits db))))"

definition fetchrow_by_id :: "database \<Rightarrow> env \<Rightarrow> int \<Rightarrow> exn + (string \<times> pyval) list option" where
  \<comment> \<open>\<^verbatim>\<open>connection.fetchrow('SELECT * FROM audits WHERE id = $1', audit_id)\<close>\<close>
  "fetchrow_by_id db ev n =
     (case query_fault ev of
        Some m \<Rightarrow> Inl (Error m)
      | None \<Rightarrow> Inr (map_option full_record (find (\<lambda>r. row_id r = n) (audits db))))"

definition fetchval_insert :: "database \<Rightarrow> env \<Rightarrow> string \<Rightarrow> string \<Rightarrow> (exn + int) \<times> database" where
  \<comment> \<open>\<^verbatim>\<open>connection.fetchval('INSERT INTO audits (audit_name, report_data) VALUES ($1, $2) RETURNING id;', ...)\<close>\<close>
  "fetchval_insert db ev name report =
     (case query_fault ev of
        Some m \<Rightarrow> (Inl (Error m), db)
      | None \<Rightarrow>
          (let n = audits_id_seq db; db' = db\<lparr>audits_id_seq := n + 1\<rparr> in
           case varchar255 name of
             Inl e \<Rightarrow> (Inl e, db)
           | Inr stored \<Rightarrow>
               if n \<in> set (map row_id (audits db))
               then (Inl (Error ''duplicate key value violates unique constraint audits_pkey''), db')
               else (Inr n,
                     db'\<lparr>audits := audits db @
                        [\<lparr>row_id = n, row_audit_name = stored, row_created_at = clock ev,
                          row_report_data = report\<rparr>]\<rparr>)))"

subsection \<open>The handlers\<close>

text \<open>
  Each handler reads \<^verbatim>\<open>app.state.pool\<close> outside its \<^verbatim>\<open>try\<close>, then runs the \<^verbatim>\<open>try\<close> body
  (the function named \<open>_try\<close>); \<^verbatim>\<open>except Exception as e\<close> turns whatever the body
  raised into an \<^verbatim>\<open>HTTPException\<close> with status 500. \<^verbatim>\<open>print\<close> has no effect on the
  response and is left out.
\<close>

definition pool_unavailable :: exn where
  "pool_unavailable = HTTPException 503 ''Database connection pool is not available.''"

definition get_all_audits_try :: "database \<Rightarrow> env \<Rightarrow> exn + pyval" where
  "get_all_audits_try db ev =
     (case acquire ev of
        Inl e \<Rightarrow> Inl e
      | Inr _ \<Rightarrow>
          (case fetch_summaries db ev of
             Inl e \<Rightarrow> Inl e
           | Inr rows \<Rightarrow> Inr (PList (map PDict rows))))"

definition get_all_audits :: "State \<Rightarrow> database \<Rightarrow> env \<Rightarrow> exn + pyval" where
  "get_all_audits st db ev =
     (case state_pool st of
        Inl e \<Rightarrow> Inl e
      | Inr p \<Rightarrow>
          if \<not> truthy p then Inl pool_unavailable
          else (case get_all_audits_try db ev of
                  Inl e \<Rightarrow> Inl (HTTPException 500 ''Internal server error'')
                | Inr v \<Rightarrow> Inr v))"

definition get_audit_by_id_try :: "database \<Rightarrow> env \<Rightarrow> int \<Rightarrow> exn + pyval" where
  "get_audit_by_id_try db ev audit_id =
     (case acquire ev of
        Inl e \<Rightarrow> Inl e
      | Inr _ \<Rightarrow>
          (case fetchrow_by_id db ev audit_id of
             Inl e \<Rightarrow> Inl e
           | Inr row \<Rightarrow>
               (case row of
                  None \<Rightarrow> Inl (HTTPException 404 ''Audit not found'')
                | Some r \<Rightarrow> Inr (PDict r))))"

definition get_audit_by_id :: "State \<Rightarrow> database \<Rightarrow> env \<Rightarrow> int \<Rightarrow> exn + pyval" where
  "get_audit_by_id st db ev audit_id =
     (case state_pool st of
        Inl e \<Rightarrow> Inl e
      | Inr p \<Rightarrow>
          if \<not> truthy p then Inl pool_unavailable
          else (case get_audit_by_id_try db ev audit_id of
                  Inl e \<Rightarrow> Inl (HTTPException 500 ''Internal server error'')
                | Inr v \<Rightarrow> Inr v))"

definition create_audit_try :: "database \<Rightarrow> env \<Rightarrow> AuditCreate \<Rightarrow> (exn + pyval) \<times> database" where
  "create_audit_try db ev audit =
     (case acquire ev of
        Inl e \<Rightarrow> (Inl e, db)
      | Inr _ \<Rightarrow>
          (case json_dumps (PList (map PDict (report_data audit))) of
             Inl e \<Rightarrow> (Inl e, db)
           | Inr report_data_as_json_string \<Rightarrow>
               (case fetchval_insert db ev (audit_name audit) report_data_as_json_string of
                  (Inl e, db') \<Rightarrow> (Inl e, db')
                | (Inr new_audit_id, db') \<Rightarrow>
                    (Inr (PDict [(''message'', PStr ''Audit report saved successfully''),
                                 (''auditId'', PInt new_audit_id)]), db'))))"

definition create_audit :: "State \<Rightarrow> database \<Rightarrow> env \<Rightarrow> AuditCreate \<Rightarrow> (exn + pyval) \<times> database" where
  "create_audit st db ev audit =
     (case state_pool st of
        Inl e \<Rightarrow> (Inl e, db)
      | Inr p \<Rightarrow>
          if \<not> truthy p then (Inl pool_unavailable, db)
          else (case create_audit_try db ev audit of
                  (Inl e, db') \<Rightarrow>
                    (Inl (HTTPException 500 (''Error saving to database: '' @ str_exn e)), db')
                | (Inr v, db') \<Rightarrow> (Inr v, db')))"

definition serve_react_app :: "bool \<Rightarrow> string \<Rightarrow> exn + string" where
  \<comment> \<open>the first argument is \<^verbatim>\<open>index_path.exists()\<close>; the result is the file sent\<close>
  "serve_react_app index_path_exists full_path =
     (if index_path_exists then Inr ''frontend/build/index.html''
      else Inl (HTTPException 404 ''Frontend entrypoint not found''))"

subsection \<open>Routes and dispatch\<close>

text \<open>
  The routes in the order of their registration. \<^verbatim>\<open>app = FastAPI(lifespan=lifespan)\<close>
  registers the framework's own documentation routes first, since \<^verbatim>\<open>main.py\<close> leaves
  them at their defaults: \<^verbatim>\<open>/openapi.json\<close>, \<^verbatim>\<open>/docs\<close>, \<^verbatim>\<open>/docs/oauth2-redirect\<close> and
  \<^verbatim>\<open>/redoc\<close>, each for \<^verbatim>\<open>GET\<close> and \<^verbatim>\<open>HEAD\<close>. Then come the routes of \<^verbatim>\<open>main.py\<close>, the
  last two only when \<^verbatim>\<open>os.getenv("NODE_ENV") == "production"\<close>:
  \<^verbatim>\<open>
  @app.get("/api/audits")
  @app.get("/api/audits/{audit_id}")
  @app.post("/api/audits", status_code=status.HTTP_201_CREATED)
  app.mount("/static", StaticFiles(...), name="static")
  @app.get("/{full_path:path}")
  \<close>
  The router compiles each path to a regular expression that ends in \<^verbatim>\<open>$\<close> and matches
  it from the start of the request path: a plain parameter is \<^verbatim>\<open>[^/]+\<close>, a \<^verbatim>\<open>:path\<close>
  parameter and the rest of a mount are \<^verbatim>\<open>.*\<close>. So \<^verbatim>\<open>$\<close> also matches before a line
  feed that ends the path, and \<^verbatim>\<open>.*\<close> does not run over a line feed. A mount matches
  every method. The router takes the first route whose path and method both match,
  answers 405 when only paths match, and otherwise redirects to the path with its
  trailing slash toggled if that one has a route, or answers 404. Only the status and
  the body of a response are represented, not its headers.
\<close>

datatype http_method = GET | HEAD | POST | OTHER

record request =
  req_method :: http_method
  req_path :: string
  req_body :: "pyval option"

datatype content =
    Json pyval
  | Text string
  | File string
  | ValidationErrors
  | Location string
  | Schema
  | Page string

datatype response = Response nat content | StaticFiles string

datatype endpoint =
    OpenApi
  | SwaggerUi
  | SwaggerUiRedirect
  | ReDoc
  | GetAllAudits
  | GetAuditById
  | CreateAudit
  | StaticMount
  | ServeReactApp

definition routes :: "string option \<Rightarrow> endpoint list" where
  "routes node_env =
     [OpenApi, SwaggerUi, SwaggerUiRedirect, ReDoc, GetAllAudits, GetAuditById, CreateAudit] @
     (if node_env = Some ''production'' then [StaticMount, ServeReactApp] else [])"

fun strip_prefix :: "string \<Rightarrow> string \<Rightarrow> string option" where
  "strip_prefix [] s = Some s"
| "strip_prefix (p # ps) [] = None"
| "strip_prefix (p # ps) (c # cs) = (if p = c then strip_prefix ps cs else None)"

definition literal_match :: "string \<Rightarrow> string \<Rightarrow> bool" where
  \<comment> \<open>a path without parameters: the text itself, or the text and one final line feed\<close>
  "literal_match lit p = (p = lit \<or> p = lit @ [CHR 0x0A])"

definition rest_match :: "string \<Rightarrow> string option" where
  \<comment> \<open>\<^verbatim>\<open>(.*)$\<close> on the rest of a path: the text captured, without a final line feed\<close>
  "rest_match s =
     (let captured = (if s \<noteq> [] \<and> last s = CHR 0x0A then butlast s else s)
      in if CHR 0x0A \<in> set captured then None else Some captured)"

fun path_param :: "endpoint \<Rightarrow> string \<Rightarrow> string option" where
  "path_param OpenApi p = (if literal_match ''/openapi.json'' p then Some [] else None)"
| "path_param SwaggerUi p = (if literal_match ''/docs'' p then Some [] else None)"
| "path_param SwaggerUiRedirect p =
     (if literal_match ''/docs/oauth2-redirect'' p then Some [] else None)"
| "path_param ReDoc p = (if literal_match ''/redoc'' p then Some [] else None)"
| "path_param GetAllAudits p = (if literal_match ''/api/audits'' p then Some [] else None)"
| "path_param GetAuditById p =
     (case strip_prefix ''/api/audits/'' p of
        Some seg \<Rightarrow> if seg \<noteq> [] \<and> CHR ''/'' \<notin> set seg then Some seg else None
      | None \<Rightarrow> None)"
| "path_param CreateAudit p = (if literal_match ''/api/audits'' p then Some [] else None)"
| "path_param StaticMount p =
     (case strip_prefix ''/static/'' p of Some s \<Rightarrow> rest_match s | None \<Rightarrow> None)"
| "path_param ServeReactApp p =
     (case strip_prefix ''/'' p of Some s \<Rightarrow> rest_match s | None \<Rightarrow> None)"

fun allows :: "endpoint \<Rightarrow> http_method \<Rightarrow> bool" where
  "allows OpenApi m = (m = GET \<or> m = HEAD)"
| "allows SwaggerUi m = (m = GET \<or> m = HEAD)"
| "allows SwaggerUiRedirect m = (m = GET \<or> m = HEAD)"
| "allows ReDoc m = (m = GET \<or> m = HEAD)"
| "allows GetAllAudits m = (m = GET)"
| "allows GetAuditById m = (m = GET)"
| "allows CreateAudit m = (m = POST)"
| "allows StaticMount m = True"
| "allows ServeReactApp m = (m = GET)"

datatype match = NoMatch | Partial | Full

definition matches :: "endpoint \<Rightarrow> http_method \<Rightarrow> string \<Rightarrow> match" where
  "matches r m p =
     (case path_param r p of
        None \<Rightarrow> NoMatch
      | Some _ \<Rightarrow> if allows r m then Full else Partial)"

text \<open>
  The response the framework sends for an exception that leaves a handler: the status
  and detail of an \<^verbatim>\<open>HTTPException\<close>, 422 with the list of errors for a validation
  error, and the plain 500 of the server-error middleware for anything else.
\<close>

fun exception_response :: "exn \<Rightarrow> response" where
  "exception_response (HTTPException s d) = Response s (Json (PDict [(''detail'', PStr d)]))"
| "exception_response RequestValidationError = Response 422 ValidationErrors"
| "exception_response (AttributeError a) = Response 500 (Text ''Internal Server Error'')"
| "exception_response (Error m) = Response 500 (Text ''Internal Server Error'')"

definition respond :: "nat \<Rightarrow> exn + pyval \<Rightarrow> response" where
  "respond ok r = (case r of Inl e \<Rightarrow> exception_response e | Inr v \<Rightarrow> Response ok (Json v))"

text \<open>
  Calling an endpoint. The documentation routes answer with the OpenAPI schema of the
  application and with the pages of its viewers, whatever the state and the table.
  The framework converts the path parameter \<^verbatim>\<open>audit_id: int\<close>
  (the converter is the parameter \<open>int_param\<close>) and validates the body against
  \<^verbatim>\<open>AuditCreate\<close> before it calls the handler; a request that fails there is answered
  without the handler running.
\<close>

definition call_endpoint ::
  "(string \<Rightarrow> int option) \<Rightarrow> State \<Rightarrow> database \<Rightarrow> env \<Rightarrow> request \<Rightarrow> endpoint \<Rightarrow> string
     \<Rightarrow> response \<times> database" where
  "call_endpoint int_param st db ev req r param =
     (case r of
        OpenApi \<Rightarrow> (Response 200 Schema, db)
      | SwaggerUi \<Rightarrow> (Response 200 (Page ''Swagger UI''), db)
      | SwaggerUiRedirect \<Rightarrow> (Response 200 (Page ''Swagger UI: OAuth2 Redirect''), db)
      | ReDoc \<Rightarrow> (Response 200 (Page ''ReDoc''), db)
      | GetAllAudits \<Rightarrow> (respond 200 (get_all_audits st db ev), db)
      | GetAuditById \<Rightarrow>
          (case int_param param of
             None \<Rightarrow> (exception_response RequestValidationError, db)
           | Some audit_id \<Rightarrow> (respond 200 (get_audit_by_id st db ev audit_id), db))
      | CreateAudit \<Rightarrow>
          (case req_body req of
             None \<Rightarrow> (exception_response RequestValidationError, db)
           | Some b \<Rightarrow>
               (case validate_AuditCreate b of
                  Inl e \<Rightarrow> (exception_response e, db)
                | Inr audit \<Rightarrow>
                    (case create_audit st db ev audit of
                       (res, db') \<Rightarrow> (respond 201 res, db'))))
      | StaticMount \<Rightarrow> (StaticFiles param, db)
      | ServeReactApp \<Rightarrow>
          (case serve_react_app (index_exists ev) param of
             Inl e \<Rightarrow> (exception_response e, db)
           | Inr f \<Rightarrow> (Response 200 (File f), db)))"

definition toggle_slash :: "string \<Rightarrow> string" where
  "toggle_slash p = (if p \<noteq> [] \<and> last p = CHR ''/'' then butlast p else p @ ''/'')"

definition handle_request ::
  "(string \<Rightarrow> int option) \<Rightarrow> string option \<Rightarrow> State \<Rightarrow> database \<Rightarrow> env \<Rightarrow> request
     \<Rightarrow> response \<times> database" where
  "handle_request int_param node_env st db ev req =
     (let rs = routes node_env; m = req_method req; p = req_path req in
      case find (\<lambda>r. matches r m p = Full) rs of
        Some r \<Rightarrow> call_endpoint int_param st db ev req r (the (path_param r p))
      | None \<Rightarrow>
          (case find (\<lambda>r. matches r m p = Partial) rs of
             Some r \<Rightarrow> (exception_response (HTTPException 405 ''Method Not Allowed''), db)
           | None \<Rightarrow>
               if p \<noteq> ''/'' \<and> (\<exists>r \<in> set rs. matches r m (toggle_slash p) \<noteq> NoMatch)
               then (Response 307 (Location (toggle_slash p)), db)
               else (exception_response (HTTPException 404 ''Not Found''), db)))"

text \<open>
  A converter for \<^verbatim>\<open>audit_id: int\<close> that takes decimal digits with an optional minus
  sign, for concrete requests. The framework's conversion takes more (a plus sign,
  blanks around the number, underscores between digits, a zero fraction); the
  converter is used below only on segments where the two agree.
\<close>

fun digits_value :: "string \<Rightarrow> nat \<Rightarrow> nat option" where
  "digits_value [] acc = Some acc"
| "digits_value (c # cs) acc =
     (if (48::nat) \<le> of_char c \<and> (of_char c :: nat) \<le> 57
      then digits_value cs (10 * acc + (of_char c - 48))
      else None)"

definition decimal_int :: "string \<Rightarrow> int option" where
  "decimal_int s =
     (case s of
        [] \<Rightarrow> None
      | c # cs \<Rightarrow>
          if c = CHR ''-'' \<and> cs \<noteq> [] then map_option (\<lambda>n. - int n) (digits_value cs 0)
          else map_option int (digits_value s 0))"

subsection \<open>Concrete inputs\<close>

text \<open>
  A state after a startup that reached the database, an empty table, an environment in
  which no call fails, and the request of the service's documentation,
  \<^verbatim>\<open>{"auditName": "Q1 Review", "reportData": [{"item": "x", "score": 5}]}\<close>.
\<close>

definition started :: State where
  "started =
     snd (lifespan_startup \<lparr>create_pool_fault = None, create_table_fault = None\<rparr> Map.empty)"

definition empty_db :: database where
  "empty_db = \<lparr>audits = [], audits_id_seq = 1\<rparr>"

definition quiet :: "int \<Rightarrow> env" where
  "quiet t = \<lparr>acquire_fault = None, query_fault = None, clock = t, index_exists = True\<rparr>"

definition q1_review :: AuditCreate where
  "q1_review =
     \<lparr>audit_name = ''Q1 Review'',
      report_data = [[(''item'', PStr ''x''), (''score'', PInt 5)]]\<rparr>"

definition saved :: "int \<Rightarrow> pyval" where
  \<comment> \<open>the value \<^verbatim>\<open>create_audit\<close> returns\<close>
  "saved n = PDict [(''message'', PStr ''Audit report saved successfully''), (''auditId'', PInt n)]"

text \<open>
  A table of two audits, an environment whose statement fails, a request with a given
  name and an empty report, and the table after the documented request was saved at
  time 1000.
\<close>

definition two_audits :: database where
  "two_audits =
     \<lparr>audits = [\<lparr>row_id = 1, row_audit_name = ''Q1 Review'', row_created_at = 1000,
                  row_report_data = ''[]''\<rparr>,
                \<lparr>row_id = 2, row_audit_name = ''Q2 Review'', row_created_at = 2000,
                  row_report_data = ''[]''\<rparr>],
      audits_id_seq = 3\<rparr>"

definition connection_lost :: env where
  "connection_lost = (quiet 1000)\<lparr>query_fault := Some ''connection was closed''\<rparr>"

definition with_name :: "string \<Rightarrow> AuditCreate" where
  "with_name s = \<lparr>audit_name = s, report_data = []\<rparr>"

definition q1_saved :: database where
  "q1_saved =
     \<lparr>audits = [\<lparr>row_id = 1, row_audit_name = ''Q1 Review'', row_created_at = 1000,
                  row_report_data = ''[{\"item\": \"x\", \"score\": 5}]''\<rparr>],
      audits_id_seq = 2\<rparr>"

section \<open>Properties\<close>

subsection \<open>Shared facts\<close>

lemma state_pool_started: "state_pool started = Inr PoolObj"
  by (simp add: started_def lifespan_startup_def state_pool_def)

lemma find_no_row:
  "\<forall>r \<in> set rs. row_id r \<noteq> n \<Longrightarrow> find (\<lambda>r. row_id r = n) rs = None"
  by (simp add: find_None_iff)

lemma strip_prefix_append: "strip_prefix p (p @ s) = Some s"
  by (induction p) simp_all

lemma find_first:
  "\<forall>x \<in> set pre. \<not> P x \<Longrightarrow> P r \<Longrightarrow> find P (pre @ r # post) = Some r"
  by (induction pre) auto

lemma dispatch_first_match:
  assumes "routes node_env = pre @ r # post"
    and "\<forall>x \<in> set pre. matches x (req_method req) (req_path req) \<noteq> Full"
    and "matches r (req_method req) (req_path req) = Full"
    and "path_param r (req_path req) = Some param"
  shows "handle_request int_param node_env st db ev req
     = call_endpoint int_param st db ev req r param"
proof -
  have "find (\<lambda>x. matches x (req_method req) (req_path req) = Full) (routes node_env) = Some r"
    unfolding assms(1) using assms(2,3) by (intro find_first) auto
  then show ?thesis
    by (simp add: handle_request_def Let_def assms(4))
qed

lemma literal_match_no_line_feed:
  "CHR 0x0A \<notin> set p \<Longrightarrow> literal_match lit p = (p = lit)"
  by (auto simp: literal_match_def)

lemma rest_match_no_line_feed:
  "CHR 0x0A \<notin> set s \<Longrightarrow> rest_match s = Some s"
proof -
  assume a: "CHR 0x0A \<notin> set s"
  have "\<not> (s \<noteq> [] \<and> last s = CHR 0x0A)"
    using a by (metis last_in_set)
  then show ?thesis
    using a by (auto simp: rest_match_def Let_def)
qed

lemma dumps_q1:
  "json_dumps (PList (map PDict (report_data q1_review)))
     = Inr ''[{\"item\": \"x\", \"score\": 5}]''"
  by (simp add: q1_review_def encode_str_def escape_char_def str_int_def)

lemma find_appended_row:
  "n \<notin> set (map row_id rs) \<Longrightarrow> row_id r = n \<Longrightarrow>
   find (\<lambda>x. row_id x = n) (rs @ [r]) = Some r"
  by (induction rs) auto

lemma fetchval_insert_returns:
  assumes "fetchval_insert db ev name report = (Inr n, db')"
  shows "\<exists>stored. varchar255 name = Inr stored
           \<and> n \<notin> set (map row_id (audits db))
           \<and> audits db' = audits db @
                [\<lparr>row_id = n, row_audit_name = stored, row_created_at = clock ev,
                  row_report_data = report\<rparr>]
           \<and> n = audits_id_seq db \<and> audits_id_seq db' = n + 1"
  using assms
  by (auto simp: fetchval_insert_def Let_def split: option.splits sum.splits if_splits)

lemma create_audit_returns:
  assumes "create_audit st db ev audit = (Inr v, db')"
  shows "\<exists>s n. json_dumps (PList (map PDict (report_data audit))) = Inr s
           \<and> fetchval_insert db ev (audit_name audit) s = (Inr n, db')
           \<and> v = saved n"
  using assms
  by (auto simp: create_audit_def create_audit_try_def saved_def
      split: sum.splits if_splits prod.splits)

text \<open>
  No startup leaves \<^verbatim>\<open>app.state.pool\<close> set to \<^verbatim>\<open>None\<close>: the attribute is either a pool
  or was never assigned, so the 503 branch of the handlers is not reached from
  \<^verbatim>\<open>lifespan\<close>.
\<close>

lemma pool_never_none:
  "state_pool (snd (lifespan_startup su Map.empty)) \<noteq> Inr PyNone"
  by (simp add: lifespan_startup_def state_pool_def Let_def split: option.splits)

subsection \<open>Reading an identifier that has no row\<close>

text \<open>
  C1. The claim: with the pool available and no row of the given identifier,
  \<^verbatim>\<open>get_audit_by_id\<close> answers 404 and never 500. In the source the
  \<^verbatim>\<open>raise HTTPException(status_code=404)\<close> stands inside the \<^verbatim>\<open>try\<close> whose
  \<^verbatim>\<open>except Exception\<close> catches it: the \<^verbatim>\<open>try\<close> body raises the 404 and the handler
  replaces it by the 500 "Internal server error", whatever the environment does.
\<close>

theorem get_audit_by_id_missing_row:
  assumes "state_pool st = Inr PoolObj"
    and "\<forall>r \<in> set (audits db). row_id r \<noteq> audit_id"
  shows "get_audit_by_id st db ev audit_id = Inl (HTTPException 500 ''Internal server error'')
       \<and> (acquire_fault ev = None \<and> query_fault ev = None \<longrightarrow>
            get_audit_by_id_try db ev audit_id = Inl (HTTPException 404 ''Audit not found''))"
proof -
  have none: "find (\<lambda>r. row_id r = audit_id) (audits db) = None"
    using assms(2) by (rule find_no_row)
  have raised: "\<exists>e. get_audit_by_id_try db ev audit_id = Inl e"
    by (simp add: get_audit_by_id_try_def acquire_def fetchrow_by_id_def none
        split: option.splits)
  then obtain e where "get_audit_by_id_try db ev audit_id = Inl e" ..
  then have "get_audit_by_id st db ev audit_id = Inl (HTTPException 500 ''Internal server error'')"
    using assms(1) by (simp add: get_audit_by_id_def)
  moreover have "acquire_fault ev = None \<and> query_fault ev = None \<longrightarrow>
      get_audit_by_id_try db ev audit_id = Inl (HTTPException 404 ''Audit not found'')"
    by (simp add: get_audit_by_id_try_def acquire_def fetchrow_by_id_def none)
  ultimately show ?thesis by simp
qed

theorem get_audit_by_id_missing_row_witness:
  "state_pool started = Inr PoolObj
   \<and> audits empty_db = []
   \<and> get_audit_by_id started empty_db (quiet 1000) 999
       = Inl (HTTPException 500 ''Internal server error'')
   \<and> get_audit_by_id_try empty_db (quiet 1000) 999
       = Inl (HTTPException 404 ''Audit not found'')
   \<and> exception_response (HTTPException 500 ''Internal server error'')
       = Response 500 (Json (PDict [(''detail'', PStr ''Internal server error'')]))"
  using get_audit_by_id_missing_row [of started empty_db 999 "quiet 1000"]
  by (simp add: state_pool_started empty_db_def quiet_def)

subsection \<open>Requests after a failed pool creation\<close>

text \<open>
  C2. The claim: when the pool was not created at startup, each of the three handlers
  answers 503. In the source \<^verbatim>\<open>app.state.pool = db_pool\<close> runs only after
  \<^verbatim>\<open>create_pool\<close> has returned, so after a failed creation the attribute does not
  exist: the guard \<^verbatim>\<open>if not app.state.pool\<close> raises \<^verbatim>\<open>AttributeError\<close> outside every
  \<^verbatim>\<open>try\<close>, and the framework answers with its plain 500.
\<close>

theorem handlers_after_failed_pool_creation:
  assumes "st = snd (lifespan_startup
                       \<lparr>create_pool_fault = Some m, create_table_fault = f\<rparr> Map.empty)"
  shows "get_all_audits st db ev = Inl (AttributeError ''pool'')
       \<and> get_audit_by_id st db ev audit_id = Inl (AttributeError ''pool'')
       \<and> create_audit st db ev audit = (Inl (AttributeError ''pool''), db)
       \<and> exception_response (AttributeError ''pool'')
           = Response 500 (Text ''Internal Server Error'')"
proof -
  have "state_pool st = Inl (AttributeError ''pool'')"
    by (simp add: assms lifespan_startup_def state_pool_def)
  then show ?thesis
    by (simp add: get_all_audits_def get_audit_by_id_def create_audit_def)
qed

theorem handlers_after_failed_pool_creation_witness:
  "get_all_audits
      (snd (lifespan_startup
              \<lparr>create_pool_fault = Some ''connection refused'', create_table_fault = None\<rparr>
              Map.empty))
      empty_db (quiet 1000) = Inl (AttributeError ''pool'')
   \<and> respond 200 (Inl (AttributeError ''pool'')) = Response 500 (Text ''Internal Server Error'')"
  using handlers_after_failed_pool_creation
    [of "snd (lifespan_startup
                \<lparr>create_pool_fault = Some ''connection refused'', create_table_fault = None\<rparr>
                Map.empty)"
        "''connection refused''" None empty_db "quiet 1000" 0 q1_review]
  by (simp add: respond_def)

subsection \<open>Requests the framework rejects before the handler\<close>

lemma validate_missing_audit_name:
  "map_of kvs ''auditName'' = None \<Longrightarrow> validate_AuditCreate (PDict kvs) = Inl RequestValidationError"
  by (simp add: validate_AuditCreate_def)

lemma validate_bad_report_data:
  "\<forall>v. map_of kvs ''reportData'' = Some v \<longrightarrow> list_of_dicts v = None \<Longrightarrow>
   validate_AuditCreate (PDict kvs) = Inl RequestValidationError"
  by (auto simp: validate_AuditCreate_def split: option.splits pyval.splits)

lemma post_audits_route:
  assumes "req_method req = POST" and "req_path req = ''/api/audits''"
  shows "handle_request int_param node_env st db ev req
     = call_endpoint int_param st db ev req CreateAudit []"
proof (rule dispatch_first_match)
  show "routes node_env =
      [OpenApi, SwaggerUi, SwaggerUiRedirect, ReDoc, GetAllAudits, GetAuditById] @
      CreateAudit #
      (if node_env = Some ''production'' then [StaticMount, ServeReactApp] else [])"
    by (simp add: routes_def)
  show "\<forall>x \<in> set [OpenApi, SwaggerUi, SwaggerUiRedirect, ReDoc, GetAllAudits, GetAuditById].
          matches x (req_method req) (req_path req) \<noteq> Full"
    by (simp add: assms matches_def literal_match_def)
  show "matches CreateAudit (req_method req) (req_path req) = Full"
    by (simp add: assms matches_def literal_match_def)
  show "path_param CreateAudit (req_path req) = Some []"
    by (simp add: assms literal_match_def)
qed

text \<open>
  C3. A \<^verbatim>\<open>POST /api/audits\<close> whose body is an object without \<^verbatim>\<open>auditName\<close>, or
  whose \<^verbatim>\<open>reportData\<close> is not an array of objects, is answered with the client error
  422 by the validation against \<^verbatim>\<open>AuditCreate\<close>: the handler body does not run, the
  answer does not depend on the table or on the environment, and the table is left
  as it was.
\<close>

theorem create_audit_rejects_malformed_body:
  assumes "req_method req = POST" and "req_path req = ''/api/audits''"
    and "req_body req = Some (PDict kvs)"
    and "map_of kvs ''auditName'' = None
         \<or> (\<forall>v. map_of kvs ''reportData'' = Some v \<longrightarrow> list_of_dicts v = None)"
  shows "handle_request int_param node_env st db ev req = (Response 422 ValidationErrors, db)"
proof -
  have "validate_AuditCreate (PDict kvs) = Inl RequestValidationError"
    using assms(4) validate_missing_audit_name validate_bad_report_data by blast
  then have "call_endpoint int_param st db ev req CreateAudit [] = (Response 422 ValidationErrors, db)"
    by (simp add: call_endpoint_def assms(3))
  then show ?thesis
    using post_audits_route [OF assms(1,2)] by simp
qed

theorem create_audit_rejects_malformed_body_witness:
  "handle_request decimal_int None started empty_db (quiet 1000)
      \<lparr>req_method = POST, req_path = ''/api/audits'',
       req_body = Some (PDict [(''reportData'', PList [PDict [(''item'', PStr ''x'')]])])\<rparr>
     = (Response 422 ValidationErrors, empty_db)
   \<and> handle_request decimal_int None started empty_db (quiet 1000)
      \<lparr>req_method = POST, req_path = ''/api/audits'',
       req_body = Some (PDict [(''auditName'', PStr ''Q1 Review''), (''reportData'', PList [PInt 5])])\<rparr>
     = (Response 422 ValidationErrors, empty_db)"
  using create_audit_rejects_malformed_body
    [of "\<lparr>req_method = POST, req_path = ''/api/audits'',
          req_body = Some (PDict [(''reportData'', PList [PDict [(''item'', PStr ''x'')]])])\<rparr>"
        "[(''reportData'', PList [PDict [(''item'', PStr ''x'')]])]"
        decimal_int None started empty_db "quiet 1000"]
    create_audit_rejects_malformed_body
    [of "\<lparr>req_method = POST, req_path = ''/api/audits'',
          req_body = Some (PDict [(''auditName'', PStr ''Q1 Review''), (''reportData'', PList [PInt 5])])\<rparr>"
        "[(''auditName'', PStr ''Q1 Review''), (''reportData'', PList [PInt 5])]"
        decimal_int None started empty_db "quiet 1000"]
  by simp

lemma get_audit_route:
  assumes "req_method req = GET" and "req_path req = ''/api/audits/'' @ seg"
    and "seg \<noteq> []" and "CHR ''/'' \<notin> set seg"
  shows "handle_request int_param node_env st db ev req
     = call_endpoint int_param st db ev req GetAuditById seg"
proof (rule dispatch_first_match)
  have sp: "strip_prefix ''/api/audits/'' (''/api/audits/'' @ seg) = Some seg"
    by (rule strip_prefix_append)
  show p2: "path_param GetAuditById (req_path req) = Some seg"
    using assms(2,3,4) sp by simp
  show "routes node_env =
      [OpenApi, SwaggerUi, SwaggerUiRedirect, ReDoc, GetAllAudits] @
      GetAuditById #
      (CreateAudit #
       (if node_env = Some ''production'' then [StaticMount, ServeReactApp] else []))"
    by (simp add: routes_def)
  show "\<forall>x \<in> set [OpenApi, SwaggerUi, SwaggerUiRedirect, ReDoc, GetAllAudits].
          matches x (req_method req) (req_path req) \<noteq> Full"
    using assms(3) by (simp add: assms(2) matches_def literal_match_def)
  show "matches GetAuditById (req_method req) (req_path req) = Full"
    using p2 assms(1) by (simp add: matches_def)
qed

text \<open>
  C10. A \<^verbatim>\<open>GET /api/audits/{audit_id}\<close> whose segment the integer converter rejects is
  answered with the validation error 422 before \<^verbatim>\<open>get_audit_by_id\<close> runs: neither 404
  nor 500, and the table is left as it was.
\<close>

theorem get_audit_by_id_rejects_non_integer:
  assumes "req_method req = GET" and "req_path req = ''/api/audits/'' @ seg"
    and "seg \<noteq> []" and "CHR ''/'' \<notin> set seg"
    and "int_param seg = None"
  shows "handle_request int_param node_env st db ev req = (Response 422 ValidationErrors, db)"
  using get_audit_route [OF assms(1-4)] assms(5)
  by (simp add: call_endpoint_def)

theorem get_audit_by_id_rejects_non_integer_witness:
  "decimal_int ''abc'' = None
   \<and> handle_request decimal_int None started empty_db (quiet 1000)
        \<lparr>req_method = GET, req_path = ''/api/audits/abc'', req_body = None\<rparr>
      = (Response 422 ValidationErrors, empty_db)"
proof -
  have d: "decimal_int ''abc'' = None"
    by (simp add: decimal_int_def)
  show ?thesis
    using d get_audit_by_id_rejects_non_integer
      [of "\<lparr>req_method = GET, req_path = ''/api/audits/abc'', req_body = None\<rparr>" "''abc''"
          decimal_int None started empty_db "quiet 1000"]
    by simp
qed

subsection \<open>The fallback route of production mode\<close>

lemma fallback_route:
  assumes "req_method req = GET"
    and "req_path req = CHR ''/'' # rest" and "CHR 0x0A \<notin> set rest"
    and "req_path req \<notin> {''/openapi.json'', ''/docs'', ''/docs/oauth2-redirect'', ''/redoc''}"
    and "path_param GetAllAudits (req_path req) = None"
    and "path_param GetAuditById (req_path req) = None"
    and "path_param StaticMount (req_path req) = None"
  shows "handle_request int_param (Some ''production'') st db ev req
     = call_endpoint int_param st db ev req ServeReactApp rest"
proof (rule dispatch_first_match)
  have nolf: "CHR 0x0A \<notin> set (req_path req)"
    using assms(2,3) by simp
  have lit: "literal_match l (req_path req) = (req_path req = l)" for l
    using nolf by (rule literal_match_no_line_feed)
  have docs: "path_param OpenApi (req_path req) = None"
    "path_param SwaggerUi (req_path req) = None"
    "path_param SwaggerUiRedirect (req_path req) = None"
    "path_param ReDoc (req_path req) = None"
    using assms(4) by (simp_all add: lit)
  have create: "path_param CreateAudit (req_path req) = None"
    using assms(5) by (simp split: if_splits)
  show "routes (Some ''production'') =
      [OpenApi, SwaggerUi, SwaggerUiRedirect, ReDoc, GetAllAudits, GetAuditById, CreateAudit,
       StaticMount] @ ServeReactApp # []"
    by (simp add: routes_def)
  show "\<forall>x \<in> set [OpenApi, SwaggerUi, SwaggerUiRedirect, ReDoc, GetAllAudits, GetAuditById,
                   CreateAudit, StaticMount].
          matches x (req_method req) (req_path req) \<noteq> Full"
    using docs create assms(5,6,7) by (simp add: matches_def)
  show p: "path_param ServeReactApp (req_path req) = Some rest"
    using assms(2) rest_match_no_line_feed [OF assms(3)] by simp
  show "matches ServeReactApp (req_method req) (req_path req) = Full"
    using p assms(1) by (simp add: matches_def)
qed

text \<open>
  C8. The claim: with \<^verbatim>\<open>NODE_ENV\<close> set to \<^verbatim>\<open>production\<close>, every \<^verbatim>\<open>GET\<close> on a path that
  matches no API route and is not under \<^verbatim>\<open>/static/\<close> is answered with \<^verbatim>\<open>index.html\<close>
  when the file exists and with 404 when it does not, and the fallback route is not
  registered without that value. The fallback is the last route, and the framework's
  documentation routes stand before it: \<^verbatim>\<open>GET /docs\<close> is answered with the Swagger
  page. Amended: the answer is \<^verbatim>\<open>index.html\<close>, or 404 without the file, for every
  \<^verbatim>\<open>GET\<close> on a path without a line feed that is none of \<^verbatim>\<open>/openapi.json\<close>, \<^verbatim>\<open>/docs\<close>,
  \<^verbatim>\<open>/docs/oauth2-redirect\<close> and \<^verbatim>\<open>/redoc\<close>, matches no API route and is not under
  \<^verbatim>\<open>/static/\<close>; without the production value the fallback is not among the routes.
\<close>

theorem serve_react_app_fallback:
  "(node_env = Some ''production'' \<and> req_method req = GET
      \<and> req_path req = CHR ''/'' # rest \<and> CHR 0x0A \<notin> set rest
      \<and> req_path req \<notin> {''/openapi.json'', ''/docs'', ''/docs/oauth2-redirect'', ''/redoc''}
      \<and> path_param GetAllAudits (req_path req) = None
      \<and> path_param GetAuditById (req_path req) = None
      \<and> path_param StaticMount (req_path req) = None
    \<longrightarrow> handle_request int_param node_env st db ev req
          = (if index_exists ev then Response 200 (File ''frontend/build/index.html'')
             else Response 404 (Json (PDict [(''detail'', PStr ''Frontend entrypoint not found'')])),
             db))
   \<and> (node_env \<noteq> Some ''production'' \<longrightarrow> ServeReactApp \<notin> set (routes node_env))"
proof (intro conjI impI)
  assume h: "node_env = Some ''production'' \<and> req_method req = GET
      \<and> req_path req = CHR ''/'' # rest \<and> CHR 0x0A \<notin> set rest
      \<and> req_path req \<notin> {''/openapi.json'', ''/docs'', ''/docs/oauth2-redirect'', ''/redoc''}
      \<and> path_param GetAllAudits (req_path req) = None
      \<and> path_param GetAuditById (req_path req) = None
      \<and> path_param StaticMount (req_path req) = None"
  then have "handle_request int_param (Some ''production'') st db ev req
     = call_endpoint int_param st db ev req ServeReactApp rest"
    by (intro fallback_route) blast+
  with h have "handle_request int_param node_env st db ev req
     = call_endpoint int_param st db ev req ServeReactApp rest"
    by blast
  then show "handle_request int_param node_env st db ev req
          = (if index_exists ev then Response 200 (File ''frontend/build/index.html'')
             else Response 404 (Json (PDict [(''detail'', PStr ''Frontend entrypoint not found'')])),
             db)"
    by (simp add: call_endpoint_def serve_react_app_def)
next
  assume "node_env \<noteq> Some ''production''"
  then show "ServeReactApp \<notin> set (routes node_env)"
    by (simp add: routes_def)
qed

theorem serve_react_app_fallback_witness:
  "handle_request decimal_int (Some ''production'') started empty_db (quiet 1000)
      \<lparr>req_method = GET, req_path = ''/reports/7'', req_body = None\<rparr>
     = (Response 200 (File ''frontend/build/index.html''), empty_db)
   \<and> handle_request decimal_int (Some ''production'') started empty_db
        ((quiet 1000)\<lparr>index_exists := False\<rparr>)
        \<lparr>req_method = GET, req_path = ''/reports/7'', req_body = None\<rparr>
     = (Response 404 (Json (PDict [(''detail'', PStr ''Frontend entrypoint not found'')])), empty_db)
   \<and> ServeReactApp \<notin> set (routes None)"
proof -
  let ?req = "\<lparr>req_method = GET, req_path = ''/reports/7'', req_body = None\<rparr>"
  have a: "handle_request decimal_int (Some ''production'') started empty_db (quiet 1000) ?req
     = (Response 200 (File ''frontend/build/index.html''), empty_db)"
    using serve_react_app_fallback
      [of "Some ''production''" ?req "''reports/7''" decimal_int started empty_db "quiet 1000"]
    by (simp add: quiet_def literal_match_def)
  have b: "handle_request decimal_int (Some ''production'') started empty_db
        ((quiet 1000)\<lparr>index_exists := False\<rparr>) ?req
     = (Response 404 (Json (PDict [(''detail'', PStr ''Frontend entrypoint not found'')])), empty_db)"
    using serve_react_app_fallback
      [of "Some ''production''" ?req "''reports/7''" decimal_int started empty_db
          "(quiet 1000)\<lparr>index_exists := False\<rparr>"]
    by (simp add: quiet_def literal_match_def)
  have c: "ServeReactApp \<notin> set (routes None)"
    using serve_react_app_fallback [of None ?req "''reports/7''" decimal_int started empty_db "quiet 1000"]
    by simp
  show ?thesis using a b c by simp
qed

theorem serve_react_app_docs_counterexample:
  "index_exists (quiet 1000)
   \<and> path_param GetAllAudits ''/docs'' = None
   \<and> path_param GetAuditById ''/docs'' = None
   \<and> path_param CreateAudit ''/docs'' = None
   \<and> path_param StaticMount ''/docs'' = None
   \<and> handle_request decimal_int (Some ''production'') started empty_db (quiet 1000)
        \<lparr>req_method = GET, req_path = ''/docs'', req_body = None\<rparr>
      = (Response 200 (Page ''Swagger UI''), empty_db)"
  by (simp add: handle_request_def routes_def matches_def literal_match_def call_endpoint_def
      quiet_def)

text \<open>
  A line feed inside the path keeps the \<^verbatim>\<open>:path\<close> parameter from matching: in
  production such a request finds no route and gets the router's own 404, with the
  file present.
\<close>

lemma line_feed_path_not_found:
  "handle_request decimal_int (Some ''production'') started empty_db (quiet 1000)
      \<lparr>req_method = GET, req_path = [CHR ''/'', CHR ''a'', CHR 0x0A, CHR ''b''], req_body = None\<rparr>
     = (Response 404 (Json (PDict [(''detail'', PStr ''Not Found'')])), empty_db)"
  by (simp add: handle_request_def routes_def matches_def literal_match_def rest_match_def
      toggle_slash_def)

subsection \<open>Reading back a created audit\<close>

text \<open>
  C4. The claim: after a create that succeeded with identifier \<open>n\<close>, reading \<open>n\<close>
  returns the submitted name and the submitted report array. What the code returns:
  \<^verbatim>\<open>create_audit\<close> hands the report to the database as the text of
  \<^verbatim>\<open>json.dumps\<close>, and \<^verbatim>\<open>get_audit_by_id\<close> returns \<^verbatim>\<open>dict(row)\<close> as it comes, without
  a \<^verbatim>\<open>json.loads\<close>: the record read back holds the name as the column stored it and,
  under \<^verbatim>\<open>report_data\<close>, the JSON text, a string and not the array.
\<close>

theorem created_audit_read_back:
  assumes "state_pool st = Inr PoolObj"
    and "create_audit st db ev audit = (Inr (saved n), db')"
    and "acquire_fault ev' = None" and "query_fault ev' = None"
  shows "\<exists>s stored.
           varchar255 (audit_name audit) = Inr stored
         \<and> get_audit_by_id st db' ev' n
             = Inr (PDict [(''id'', PInt n), (''audit_name'', PStr stored),
                           (''created_at'', PDatetime (clock ev)),
                           (''report_data'', PStr s)])
         \<and> PStr s \<noteq> PList (map PDict (report_data audit))"
proof -
  obtain s m where ins: "fetchval_insert db ev (audit_name audit) s = (Inr m, db')"
    and m: "saved n = saved m"
    using create_audit_returns [OF assms(2)] by blast
  from m have [simp]: "m = n" by (simp add: saved_def)
  obtain stored where v: "varchar255 (audit_name audit) = Inr stored"
    and fresh: "n \<notin> set (map row_id (audits db))"
    and rows: "audits db' = audits db @
                [\<lparr>row_id = n, row_audit_name = stored, row_created_at = clock ev,
                  row_report_data = s\<rparr>]"
    using fetchval_insert_returns [OF ins] by auto
  have "find (\<lambda>x. row_id x = n) (audits db')
      = Some \<lparr>row_id = n, row_audit_name = stored, row_created_at = clock ev,
              row_report_data = s\<rparr>"
    unfolding rows by (rule find_appended_row [OF fresh]) simp
  then have "get_audit_by_id st db' ev' n
             = Inr (PDict [(''id'', PInt n), (''audit_name'', PStr stored),
                           (''created_at'', PDatetime (clock ev)),
                           (''report_data'', PStr s)])"
    using assms(1,3,4)
    by (simp add: get_audit_by_id_def get_audit_by_id_try_def acquire_def fetchrow_by_id_def
        full_record_def)
  with v show ?thesis by blast
qed

lemma create_q1: "create_audit started empty_db (quiet 1000) q1_review = (Inr (saved 1), q1_saved)"
  by (simp add: create_audit_def state_pool_started create_audit_try_def acquire_def
      fetchval_insert_def varchar255_def quiet_def empty_db_def saved_def q1_saved_def
      q1_review_def encode_str_def escape_char_def str_int_def)

theorem created_audit_read_back_witness:
  "create_audit started empty_db (quiet 1000) q1_review = (Inr (saved 1), q1_saved)
   \<and> get_audit_by_id started q1_saved (quiet 2000) 1
       = Inr (PDict [(''id'', PInt 1), (''audit_name'', PStr ''Q1 Review''),
                     (''created_at'', PDatetime 1000),
                     (''report_data'', PStr ''[{\"item\": \"x\", \"score\": 5}]'')])
   \<and> PStr ''[{\"item\": \"x\", \"score\": 5}]'' \<noteq> PList (map PDict (report_data q1_review))"
proof -
  have shape: "\<exists>s stored. get_audit_by_id started q1_saved (quiet 2000) 1
       = Inr (PDict [(''id'', PInt 1), (''audit_name'', PStr stored),
                     (''created_at'', PDatetime (clock (quiet 1000))),
                     (''report_data'', PStr s)])"
    using created_audit_read_back [OF state_pool_started create_q1, of "quiet 2000"]
    by (auto simp: quiet_def)
  have row: "find (\<lambda>r. row_id r = 1) (audits q1_saved)
      = Some \<lparr>row_id = 1, row_audit_name = ''Q1 Review'', row_created_at = 1000,
              row_report_data = ''[{\"item\": \"x\", \"score\": 5}]''\<rparr>"
    by (simp add: q1_saved_def)
  from shape row have "get_audit_by_id started q1_saved (quiet 2000) 1
       = Inr (PDict [(''id'', PInt 1), (''audit_name'', PStr ''Q1 Review''),
                     (''created_at'', PDatetime 1000),
                     (''report_data'', PStr ''[{\"item\": \"x\", \"score\": 5}]'')])"
    by (simp add: get_audit_by_id_def state_pool_started get_audit_by_id_try_def acquire_def
        fetchrow_by_id_def full_record_def quiet_def)
  then show ?thesis
    using create_q1 by simp
qed

subsection \<open>Listing audits\<close>

lemma get_all_audits_result:
  assumes "get_all_audits st db ev = Inr v"
  shows "v = PList (map (PDict \<circ> summary_record)
                     (sort_key (\<lambda>r. - row_created_at r) (audits db)))"
  using assms
  by (auto simp: get_all_audits_def get_all_audits_try_def fetch_summaries_def acquire_def
      split: sum.splits if_splits option.splits)

lemma newest_first:
  "sorted_wrt (\<lambda>a b. row_created_at b \<le> row_created_at a)
     (sort_key (\<lambda>r. - row_created_at r) rows)"
proof -
  have "sorted (map (\<lambda>r. - row_created_at r) (sort_key (\<lambda>r. - row_created_at r) rows))"
    by (rule sorted_sort_key)
  then show ?thesis
    by (simp add: sorted_map)
qed

text \<open>
  C5. Every list that \<^verbatim>\<open>get_all_audits\<close> returns has one entry per stored audit, each
  entry with exactly the keys \<^verbatim>\<open>id\<close>, \<^verbatim>\<open>audit_name\<close> and \<^verbatim>\<open>created_at\<close> (no
  \<^verbatim>\<open>report_data\<close>), in the order of \<^verbatim>\<open>created_at\<close>, most recent first, whatever the
  table holds.
\<close>

theorem get_all_audits_summaries_newest_first:
  assumes "get_all_audits st db ev = Inr v"
  shows "\<exists>rs. mset rs = mset (audits db)
            \<and> sorted_wrt (\<lambda>a b. row_created_at b \<le> row_created_at a) rs
            \<and> v = PList (map (\<lambda>r. PDict [(''id'', PInt (row_id r)),
                                          (''audit_name'', PStr (row_audit_name r)),
                                          (''created_at'', PDatetime (row_created_at r))]) rs)"
proof (intro exI conjI)
  let ?rs = "sort_key (\<lambda>r. - row_created_at r) (audits db)"
  show "mset ?rs = mset (audits db)" by simp
  show "sorted_wrt (\<lambda>a b. row_created_at b \<le> row_created_at a) ?rs"
    by (rule newest_first)
  show "v = PList (map (\<lambda>r. PDict [(''id'', PInt (row_id r)),
                                   (''audit_name'', PStr (row_audit_name r)),
                                   (''created_at'', PDatetime (row_created_at r))]) ?rs)"
    using get_all_audits_result [OF assms] by (simp add: summary_record_def comp_def)
qed

lemma get_all_two_audits:
  "get_all_audits started two_audits (quiet 3000)
     = Inr (PList [PDict [(''id'', PInt 2), (''audit_name'', PStr ''Q2 Review''),
                          (''created_at'', PDatetime 2000)],
                   PDict [(''id'', PInt 1), (''audit_name'', PStr ''Q1 Review''),
                          (''created_at'', PDatetime 1000)]])"
  by (simp add: get_all_audits_def state_pool_started get_all_audits_try_def acquire_def
      fetch_summaries_def quiet_def two_audits_def summary_record_def)

theorem get_all_audits_summaries_newest_first_witness:
  "get_all_audits started two_audits (quiet 3000)
     = Inr (PList [PDict [(''id'', PInt 2), (''audit_name'', PStr ''Q2 Review''),
                          (''created_at'', PDatetime 2000)],
                   PDict [(''id'', PInt 1), (''audit_name'', PStr ''Q1 Review''),
                          (''created_at'', PDatetime 1000)]])
   \<and> (\<exists>rs. mset rs = mset (audits two_audits)
          \<and> sorted_wrt (\<lambda>a b. row_created_at b \<le> row_created_at a) rs
          \<and> PList [PDict [(''id'', PInt 2), (''audit_name'', PStr ''Q2 Review''),
                          (''created_at'', PDatetime 2000)],
                   PDict [(''id'', PInt 1), (''audit_name'', PStr ''Q1 Review''),
                          (''created_at'', PDatetime 1000)]]
             = PList (map (\<lambda>r. PDict [(''id'', PInt (row_id r)),
                                         (''audit_name'', PStr (row_audit_name r)),
                                         (''created_at'', PDatetime (row_created_at r))]) rs))"
  using get_all_audits_summaries_newest_first [OF get_all_two_audits] get_all_two_audits
  by blast

subsection \<open>Database errors\<close>

text \<open>
  C6. With the pool available, an error raised while \<^verbatim>\<open>create_audit\<close> acquires a
  connection, serialises the report or runs the insert is answered with 500 and a
  detail that ends with the error's own text; \<^verbatim>\<open>get_all_audits\<close> and
  \<^verbatim>\<open>get_audit_by_id\<close> answer an error of the database with 500 and the fixed detail
  "Internal server error", the same for every error text.
\<close>

theorem database_error_responses:
  assumes "state_pool st = Inr PoolObj"
  shows "(acquire_fault ev = Some m \<longrightarrow>
            fst (create_audit st db ev audit)
              = Inl (HTTPException 500 (''Error saving to database: '' @ m)))
       \<and> (acquire_fault ev = None
            \<and> json_dumps (PList (map PDict (report_data audit))) = Inl e \<longrightarrow>
            fst (create_audit st db ev audit)
              = Inl (HTTPException 500 (''Error saving to database: '' @ str_exn e)))
       \<and> (acquire_fault ev = None
            \<and> json_dumps (PList (map PDict (report_data audit))) = Inr s
            \<and> query_fault ev = Some m \<longrightarrow>
            fst (create_audit st db ev audit)
              = Inl (HTTPException 500 (''Error saving to database: '' @ m)))
       \<and> (acquire_fault ev = Some m \<or> query_fault ev = Some m \<longrightarrow>
            get_all_audits st db ev = Inl (HTTPException 500 ''Internal server error'')
            \<and> get_audit_by_id st db ev audit_id
                = Inl (HTTPException 500 ''Internal server error''))"
proof (intro conjI impI)
  assume "acquire_fault ev = Some m"
  then show "fst (create_audit st db ev audit)
      = Inl (HTTPException 500 (''Error saving to database: '' @ m))"
    using assms by (simp add: create_audit_def create_audit_try_def acquire_def)
next
  assume "acquire_fault ev = None \<and> json_dumps (PList (map PDict (report_data audit))) = Inl e"
  then show "fst (create_audit st db ev audit)
      = Inl (HTTPException 500 (''Error saving to database: '' @ str_exn e))"
    using assms by (simp add: create_audit_def create_audit_try_def acquire_def)
next
  assume "acquire_fault ev = None
            \<and> json_dumps (PList (map PDict (report_data audit))) = Inr s
            \<and> query_fault ev = Some m"
  then show "fst (create_audit st db ev audit)
      = Inl (HTTPException 500 (''Error saving to database: '' @ m))"
    using assms
    by (simp add: create_audit_def create_audit_try_def acquire_def fetchval_insert_def)
next
  assume f: "acquire_fault ev = Some m \<or> query_fault ev = Some m"
  then have "\<exists>x. get_all_audits_try db ev = Inl x"
    by (auto simp: get_all_audits_try_def acquire_def fetch_summaries_def split: option.splits)
  then show "get_all_audits st db ev = Inl (HTTPException 500 ''Internal server error'')"
    using assms by (auto simp: get_all_audits_def)
next
  assume f: "acquire_fault ev = Some m \<or> query_fault ev = Some m"
  then have "\<exists>x. get_audit_by_id_try db ev audit_id = Inl x"
    by (auto simp: get_audit_by_id_try_def acquire_def fetchrow_by_id_def split: option.splits)
  then show "get_audit_by_id st db ev audit_id = Inl (HTTPException 500 ''Internal server error'')"
    using assms by (auto simp: get_audit_by_id_def)
qed

theorem database_error_responses_witness:
  "fst (create_audit started empty_db connection_lost q1_review)
     = Inl (HTTPException 500 ''Error saving to database: connection was closed'')
   \<and> fst (create_audit started empty_db (quiet 1000)
            \<lparr>audit_name = ''Q1 Review'', report_data = [[(''when'', PDatetime 0)]]\<rparr>)
     = Inl (HTTPException 500
         ''Error saving to database: Object of type datetime is not JSON serializable'')
   \<and> get_all_audits started empty_db connection_lost
     = Inl (HTTPException 500 ''Internal server error'')
   \<and> get_audit_by_id started two_audits connection_lost 1
     = Inl (HTTPException 500 ''Internal server error'')"
proof -
  have a: "fst (create_audit started empty_db connection_lost q1_review)
     = Inl (HTTPException 500 ''Error saving to database: connection was closed'')"
    using database_error_responses
      [OF state_pool_started, of connection_lost "''connection was closed''" empty_db q1_review
         "Error ''x''" "''[{\"item\": \"x\", \"score\": 5}]''" 1]
      dumps_q1
    by (simp add: connection_lost_def quiet_def)
  have b: "fst (create_audit started empty_db (quiet 1000)
            \<lparr>audit_name = ''Q1 Review'', report_data = [[(''when'', PDatetime 0)]]\<rparr>)
     = Inl (HTTPException 500
         ''Error saving to database: Object of type datetime is not JSON serializable'')"
    using database_error_responses
      [OF state_pool_started, of "quiet 1000" "''m''" empty_db
         "\<lparr>audit_name = ''Q1 Review'', report_data = [[(''when'', PDatetime 0)]]\<rparr>"
         "Error ''Object of type datetime is not JSON serializable''" "''s''" 1]
    by (simp add: quiet_def)
  have c: "get_all_audits started empty_db connection_lost
     = Inl (HTTPException 500 ''Internal server error'')
   \<and> get_audit_by_id started two_audits connection_lost 1
     = Inl (HTTPException 500 ''Internal server error'')"
    using database_error_responses
      [OF state_pool_started, of connection_lost "''connection was closed''" empty_db q1_review
         "Error ''x''" "''s''" 1]
      database_error_responses
      [OF state_pool_started, of connection_lost "''connection was closed''" two_audits q1_review
         "Error ''x''" "''s''" 1]
    by (simp add: connection_lost_def quiet_def)
  show ?thesis using a b c by simp
qed

subsection \<open>Names longer than the column\<close>

lemma varchar255_too_long:
  assumes "\<exists>c \<in> set (drop 255 s). c \<noteq> CHR '' ''"
  shows "varchar255 s = Inl (Error ''value too long for type character varying(255)'')"
proof -
  from assms have "drop 255 s \<noteq> []" by auto
  then have "\<not> length s \<le> 255" by simp
  with assms show ?thesis by (auto simp: varchar255_def)
qed

lemma fetchval_insert_rejected:
  assumes "varchar255 name = Inl e"
  shows "\<exists>e' db'. fetchval_insert db ev name report = (Inl e', db') \<and> audits db' = audits db
           \<and> (query_fault ev = None \<longrightarrow> e' = e)"
  using assms by (simp add: fetchval_insert_def Let_def split: option.splits)

lemma create_audit_try_rejected:
  assumes "varchar255 (audit_name audit) = Inl e"
  shows "\<exists>e' db'. create_audit_try db ev audit = (Inl e', db') \<and> audits db' = audits db
           \<and> (acquire_fault ev = None \<and> query_fault ev = None
                \<and> (\<exists>s. json_dumps (PList (map PDict (report_data audit))) = Inr s)
              \<longrightarrow> e' = e)"
proof (cases "acquire ev")
  case (Inl a)
  then show ?thesis
    by (auto simp: create_audit_try_def acquire_def split: option.splits)
next
  case (Inr u)
  show ?thesis
  proof (cases "json_dumps (PList (map PDict (report_data audit)))")
    case (Inl b)
    then show ?thesis using Inr by (simp add: create_audit_try_def)
  next
    case js: (Inr s)
    obtain e' db' where f: "fetchval_insert db ev (audit_name audit) s = (Inl e', db')"
      "audits db' = audits db" "query_fault ev = None \<longrightarrow> e' = e"
      using fetchval_insert_rejected [OF assms] by blast
    then show ?thesis using Inr js by (simp add: create_audit_try_def)
  qed
qed

text \<open>
  C9. The claim: every create whose name exceeds 255 characters fails at the database
  and is answered with 500. PostgreSQL rejects a string longer than a
  \<^verbatim>\<open>VARCHAR(255)\<close> column "unless the excess characters are all spaces, in which case
  the string will be truncated to the maximum length" (its documentation of the
  character types). Amended: with the pool available, every create whose name has a
  character other than a space beyond its first 255 characters is answered with 500
  and inserts no row, the error being the column's when nothing fails before it.
\<close>

theorem create_audit_name_too_long:
  assumes "state_pool st = Inr PoolObj"
    and "\<exists>c \<in> set (drop 255 (audit_name audit)). c \<noteq> CHR '' ''"
  shows "(\<exists>d. fst (create_audit st db ev audit) = Inl (HTTPException 500 d))
       \<and> audits (snd (create_audit st db ev audit)) = audits db
       \<and> (acquire_fault ev = None \<and> query_fault ev = None
            \<and> (\<exists>s. json_dumps (PList (map PDict (report_data audit))) = Inr s) \<longrightarrow>
          fst (create_audit st db ev audit)
            = Inl (HTTPException 500
                ''Error saving to database: value too long for type character varying(255)''))"
proof -
  let ?e = "Error ''value too long for type character varying(255)''"
  have "varchar255 (audit_name audit) = Inl ?e"
    using assms(2) by (rule varchar255_too_long)
  then obtain e' db' where t: "create_audit_try db ev audit = (Inl e', db')"
    "audits db' = audits db"
    "acquire_fault ev = None \<and> query_fault ev = None
       \<and> (\<exists>s. json_dumps (PList (map PDict (report_data audit))) = Inr s) \<longrightarrow> e' = ?e"
    using create_audit_try_rejected by blast
  have c: "create_audit st db ev audit
      = (Inl (HTTPException 500 (''Error saving to database: '' @ str_exn e')), db')"
    using assms(1) t(1) by (simp add: create_audit_def)
  show ?thesis
    using c t(2,3) by auto
qed

theorem create_audit_name_too_long_witness:
  "length (replicate 255 CHR ''a'' @ ''b'') = 256
   \<and> fst (create_audit started empty_db (quiet 1000) (with_name (replicate 255 CHR ''a'' @ ''b'')))
      = Inl (HTTPException 500
               ''Error saving to database: value too long for type character varying(255)'')
   \<and> audits (snd (create_audit started empty_db (quiet 1000)
                    (with_name (replicate 255 CHR ''a'' @ ''b'')))) = []"
  using create_audit_name_too_long
    [OF state_pool_started, of "with_name (replicate 255 CHR ''a'' @ ''b'')" empty_db "quiet 1000"]
  by (simp add: with_name_def quiet_def empty_db_def)

theorem create_audit_name_padded_counterexample:
  "length (replicate 255 CHR ''a'' @ '' '') = 256
   \<and> create_audit started empty_db (quiet 1000) (with_name (replicate 255 CHR ''a'' @ '' ''))
      = (Inr (saved 1),
         \<lparr>audits = [\<lparr>row_id = 1, row_audit_name = replicate 255 CHR ''a'',
                      row_created_at = 1000, row_report_data = ''[]''\<rparr>],
          audits_id_seq = 2\<rparr>)"
  by (simp add: create_audit_def state_pool_started create_audit_try_def acquire_def
      fetchval_insert_def varchar255_def with_name_def quiet_def empty_db_def saved_def)

subsection \<open>Identifiers of successive creates\<close>

text \<open>
  One insert takes the next value of the sequence and advances it, so of two creates
  that run one after the other the later returns the larger identifier.
\<close>

lemma successive_creates_increase:
  assumes "create_audit st db ev audit = (Inr (saved n), db')"
    and "create_audit st db' ev' audit' = (Inr (saved n'), db'')"
  shows "n < n'"
proof -
  obtain s m where i1: "fetchval_insert db ev (audit_name audit) s = (Inr m, db')"
    and m: "saved n = saved m"
    using create_audit_returns [OF assms(1)] by blast
  from m have nm: "m = n" by (simp add: saved_def)
  have a: "audits_id_seq db' = n + 1"
    using fetchval_insert_returns [OF i1] nm by blast
  obtain s' m' where i2: "fetchval_insert db' ev' (audit_name audit') s' = (Inr m', db'')"
    and m': "saved n' = saved m'"
    using create_audit_returns [OF assms(2)] by blast
  from m' have nm': "m' = n'" by (simp add: saved_def)
  have "n' = audits_id_seq db'"
    using fetchval_insert_returns [OF i2] nm' by blast
  with a show ?thesis by simp
qed

end
